theory Spec2Isabelle
  imports Complex_Main "HOL-Library.Multiset"
begin

section \<open>Values shared by the helpers\<close>

text \<open>
  A JavaScript string is modelled as a \<^typ>\<open>string\<close> whose characters are code units in
  the 8-bit range. An optional or nullable field (\<open>undefined\<close>, \<open>null\<close>, absent key) is
  an \<^typ>\<open>'a option\<close>. An exception is a value: \<open>throw new Error(msg)\<close> is
  \<open>Inl (Error msg)\<close>, a failing method call on a non-array is \<open>Inl (TypeError msg)\<close>.
\<close>

datatype error = Error string | TypeError string

text \<open>
  \<open>!s\<close> for a string-valued optional field: \<open>undefined\<close>, \<open>null\<close> and the empty string
  are falsy, every other string is truthy.
\<close>

definition truthy :: "string option \<Rightarrow> bool" where
  "truthy v = (case v of None \<Rightarrow> False | Some s \<Rightarrow> s \<noteq> [])"

text \<open>
  The white space and line terminators removed by \<open>String.prototype.trim\<close> and matched
  by the regular-expression class \<open>\s\<close>, as far as they lie in the 8-bit range:
  TAB, LF, VT, FF, CR, SPACE and NBSP.
\<close>

definition is_space :: "char \<Rightarrow> bool" where
  "is_space c = (c \<in> set [CHR 0x09, CHR 0x0A, CHR 0x0B, CHR 0x0C, CHR 0x0D, CHR 0x20, CHR 0xA0])"

definition trim :: "string \<Rightarrow> string" where
  "trim s = rev (dropWhile is_space (rev (dropWhile is_space s)))"

text \<open>
  \<open>s.split(c)\<close> for a one-character separator: the empty string gives one empty
  piece, and a trailing separator gives a trailing empty piece.
\<close>

fun split :: "char \<Rightarrow> string \<Rightarrow> string list" where
  "split c [] = [[]]"
| "split c (x # xs) =
     (if x = c then [] # split c xs
      else (case split c xs of [] \<Rightarrow> [[x]] | w # ws \<Rightarrow> (x # w) # ws))"

text \<open>\<open>xs.indexOf(x)\<close>: the first position holding \<open>x\<close>, or \<open>-1\<close>.\<close>

fun indexOf :: "'a list \<Rightarrow> 'a \<Rightarrow> int" where
  "indexOf [] x = -1"
| "indexOf (y # ys) x =
     (if y = x then 0 else (let i = indexOf ys x in if i = -1 then -1 else i + 1))"

text \<open>\<open>xs[i]\<close>: \<open>undefined\<close> outside the array.\<close>

definition at_index :: "'a list \<Rightarrow> int \<Rightarrow> 'a option" where
  "at_index xs i = (if 0 \<le> i \<and> i < int (length xs) then Some (xs ! nat i) else None)"

section \<open>Role catalogue and permission checks (helpers/userRoleText)\<close>

text \<open>
  The argument of the role helpers has type \<open>UserRole | null | undefined\<close>; at run time
  it is \<open>undefined\<close>, \<open>null\<close> or any string.
\<close>

datatype role_arg = Undefined | Null | Role string

record RoleInfo =
  displayName :: string
  description :: string
  permissions :: "string list"
  level :: int

definition defaultRole :: RoleInfo where
  "defaultRole = \<lparr> displayName = ''Unknown'',
                   description = ''Unknown role with no permissions'',
                   permissions = [],
                   level = 0 \<rparr>"

text \<open>
  \<open>getRoleInfo\<close> is a \<open>switch\<close> over the four role names; every other argument takes
  the \<open>default\<close> branch, which logs a warning and returns \<open>defaultRole\<close>. The logger
  only writes to the console, so the model keeps the returned value.
\<close>

fun getRoleInfo :: "role_arg \<Rightarrow> RoleInfo" where
  "getRoleInfo (Role r) =
     (if r = ''owner'' then
        \<lparr> displayName = ''Owner'',
          description = ''Full system access with all permissions'',
          permissions = [''manage_users'', ''manage_roles'', ''manage_disbursements'',
                         ''manage_payments'', ''manage_wallets'', ''manage_assets'',
                         ''view_analytics'', ''manage_settings'', ''manage_api_keys'',
                         ''manage_organization''],
          level = 100 \<rparr>
      else if r = ''business'' then
        \<lparr> displayName = ''Business User'',
          description = ''Business operations with limited administrative access'',
          permissions = [''manage_disbursements'', ''manage_payments'', ''view_receivers'',
                         ''view_analytics'', ''manage_api_keys'', ''view_settings''],
          level = 75 \<rparr>
      else if r = ''developer'' then
        \<lparr> displayName = ''Developer'',
          description = ''Technical access for development and integration'',
          permissions = [''manage_api_keys'', ''view_disbursements'', ''view_payments'',
                         ''view_analytics'', ''manage_integrations'', ''view_settings''],
          level = 60 \<rparr>
      else if r = ''financial_controller'' then
        \<lparr> displayName = ''Financial Controller'',
          description = ''Financial oversight and control permissions'',
          permissions = [''view_disbursements'', ''view_payments'', ''view_receivers'',
                         ''view_analytics'', ''approve_payments'', ''view_financial_reports'',
                         ''manage_payment_limits''],
          level = 80 \<rparr>
      else defaultRole)"
| "getRoleInfo Undefined = defaultRole"
| "getRoleInfo Null = defaultRole"

definition hasPermission :: "role_arg \<Rightarrow> string \<Rightarrow> bool" where
  "hasPermission role permission = (permission \<in> set (permissions (getRoleInfo role)))"

text \<open>\<open>Array.prototype.some\<close> and \<open>every\<close> are \<^const>\<open>list_ex\<close> and \<^const>\<open>list_all\<close>.\<close>

definition hasAnyPermission :: "role_arg \<Rightarrow> string list \<Rightarrow> bool" where
  "hasAnyPermission role perms =
     list_ex (\<lambda>permission. permission \<in> set (permissions (getRoleInfo role))) perms"

definition hasAllPermissions :: "role_arg \<Rightarrow> string list \<Rightarrow> bool" where
  "hasAllPermissions role perms =
     list_all (\<lambda>permission. permission \<in> set (permissions (getRoleInfo role))) perms"

definition compareRoleLevels :: "role_arg \<Rightarrow> role_arg \<Rightarrow> int" where
  "compareRoleLevels role1 role2 = level (getRoleInfo role1) - level (getRoleInfo role2)"

subsection \<open>Role-change permission (apiQueries/useUpdateUserRole)\<close>

record RoleChangeResult =
  isValid :: bool
  reason :: "string option"

text \<open>The three denial reasons of \<open>validateRoleChangePermission\<close>, in the order of its checks.\<close>

definition reason_no_manage_roles :: string where
  "reason_no_manage_roles = ''Insufficient permissions to manage user roles''"

definition reason_higher_level :: string where
  "reason_higher_level = ''Cannot assign a role with higher permissions than your own''"

definition reason_owner_only :: string where
  "reason_owner_only = ''Only existing owners can assign owner role''"

definition validateRoleChangePermission :: "role_arg \<Rightarrow> role_arg \<Rightarrow> RoleChangeResult" where
  "validateRoleChangePermission currentUserRole newRole =
     (let currentRoleInfo = getRoleInfo currentUserRole;
          newRoleInfo = getRoleInfo newRole
      in if ''manage_roles'' \<notin> set (permissions currentRoleInfo) then
           \<lparr> isValid = False, reason = Some reason_no_manage_roles \<rparr>
         else if level newRoleInfo > level currentRoleInfo then
           \<lparr> isValid = False, reason = Some reason_higher_level \<rparr>
         else if newRole = Role ''owner'' \<and> currentUserRole \<noteq> Role ''owner'' then
           \<lparr> isValid = False, reason = Some reason_owner_only \<rparr>
         else \<lparr> isValid = True, reason = None \<rparr>)"

section \<open>Status transition tables\<close>

text \<open>
  Both validators read \<open>validTransitions[currentStatus] || []\<close> from an object literal and
  call \<open>.includes(newStatus)\<close> on the result. A key of the literal gives its array; a key
  that the literal does not have but \<open>Object.prototype\<close> has gives an inherited, truthy
  value that is not an array, on which \<open>.includes\<close> is not a function, so that the call
  raises a \<open>TypeError\<close>; every other key gives \<open>undefined\<close> and hence the empty array.
\<close>

definition object_prototype_keys :: "string list" where
  "object_prototype_keys =
     [''constructor'', ''__proto__'', ''hasOwnProperty'', ''isPrototypeOf'',
      ''propertyIsEnumerable'', ''toLocaleString'', ''toString'', ''valueOf'',
      ''__defineGetter__'', ''__defineSetter__'', ''__lookupGetter__'', ''__lookupSetter__'']"

definition transition_allowed ::
  "(string \<times> string list) list \<Rightarrow> string \<Rightarrow> string \<Rightarrow> error + bool" where
  "transition_allowed validTransitions currentStatus newStatus =
     (case map_of validTransitions currentStatus of
        Some allowedTransitions \<Rightarrow> Inr (newStatus \<in> set allowedTransitions)
      | None \<Rightarrow>
          if currentStatus \<in> set object_prototype_keys
          then Inl (TypeError ''allowedTransitions.includes is not a function'')
          else Inr False)"

definition disbursement_transitions :: "(string \<times> string list) list" where
  "disbursement_transitions =
     [(''draft'', [''pending'', ''canceled'']),
      (''pending'', [''processing'', ''canceled'']),
      (''processing'', [''completed'', ''failed'', ''canceled'']),
      (''completed'', []),
      (''failed'', [''retry'', ''canceled'']),
      (''canceled'', []),
      (''retry'', [''processing'', ''failed'', ''canceled''])]"

definition validateDisbursementStatusTransition :: "string \<Rightarrow> string \<Rightarrow> error + bool" where
  "validateDisbursementStatusTransition currentStatus newStatus =
     transition_allowed disbursement_transitions currentStatus newStatus"

definition payment_transitions :: "(string \<times> string list) list" where
  "payment_transitions =
     [(''pending'', [''processing'', ''failed'', ''canceled'']),
      (''processing'', [''completed'', ''failed'']),
      (''completed'', []),
      (''failed'', [''retry'', ''canceled'']),
      (''canceled'', []),
      (''retry'', [''processing'', ''failed'', ''canceled''])]"

definition validatePaymentStatusTransition :: "string \<Rightarrow> string \<Rightarrow> error + bool" where
  "validatePaymentStatusTransition currentStatus newStatus =
     transition_allowed payment_transitions currentStatus newStatus"

section \<open>Logging\<close>

text \<open>
  \<open>logger.info\<close>, \<open>logger.warn\<close> and \<open>logger.error\<close> write an entry and return; they do
  not change what the caller returns. The model records each call, in order, as a
  level, the message and the context string; the data object of the call is left out.
\<close>

datatype log_level = Info | Warn | Err

datatype log_entry = Log log_level string string

section \<open>Disbursement normalisation (helpers/formatDisbursements)\<close>

record ApiAsset =
  asset_id :: "string option"
  asset_code :: "string option"

record ApiWallet =
  wallet_id :: "string option"
  wallet_name :: "string option"

record ApiUser =
  first_name :: "string option"
  last_name :: "string option"

record ApiDisbursementHistory =
  dh_status :: "string option"
  dh_timestamp :: "string option"
  dh_user_id :: "string option"

text \<open>
  The raw record. The declaration of \<open>ApiDisbursement\<close> is not among the sources; the
  fields are the ones \<open>formatDisbursement\<close> reads, each optional, since the function
  guards every one of them (\<open>!x\<close>, \<open>?.\<close>, \<open>|| 0\<close>). Counts are numbers with integer values
  and amounts are rational numbers.
\<close>

record ApiDisbursement =
  d_id :: "string option"
  d_name :: "string option"
  d_created_at :: "string option"
  created_by :: "ApiUser option"
  started_by :: "ApiUser option"
  total_payments :: "int option"
  total_payments_sent :: "int option"
  total_payments_failed :: "int option"
  total_payments_canceled :: "int option"
  total_payments_remaining :: "int option"
  total_amount :: "rat option"
  amount_disbursed :: "rat option"
  average_amount :: "rat option"
  d_status :: "string option"
  registration_contact_type :: "string option"
  asset :: "ApiAsset option"
  wallet :: "ApiWallet option"
  verification_field :: "string option"
  file_name :: "string option"
  d_status_history :: "ApiDisbursementHistory list option"
  receiver_registration_message_template :: "string option"




text \<open>\<open>x || 0\<close> on an optional number: an absent value and zero both give zero.\<close>

definition or_zero :: "'a::zero option \<Rightarrow> 'a" where
  "or_zero v = (case v of None \<Rightarrow> 0 | Some n \<Rightarrow> if n = 0 then 0 else n)"

text \<open>\<open>o?.f\<close>: the field of an optional object.\<close>

definition opt_field :: "'a option \<Rightarrow> ('a \<Rightarrow> 'b option) \<Rightarrow> 'b option" where
  "opt_field obj f = (case obj of None \<Rightarrow> None | Some x \<Rightarrow> f x)"






text \<open>
  The payment counts are numbers with integer values. The sum of two such numbers is
  exact when it lies between \<open>-2^53\<close> and \<open>2^53\<close>, where every integer is a number;
  beyond that the sum is rounded. \<open>totalPayments !== calculatedTotal\<close>, with
  \<open>calculatedTotal\<close> the sum of the four status counts from left to right, is therefore
  the comparison with the exact sum when the three partial sums stay in that range,
  and is taken as the parameter \<open>rounded\<close> otherwise.
\<close>

definition MAX_SAFE :: int where
  "MAX_SAFE = 9007199254740992"

definition statistics_mismatch ::
  "(int \<Rightarrow> int \<Rightarrow> int \<Rightarrow> int \<Rightarrow> int \<Rightarrow> bool) \<Rightarrow> int \<Rightarrow> int \<Rightarrow> int \<Rightarrow> int \<Rightarrow> int \<Rightarrow> bool" where
  "statistics_mismatch rounded totalPayments successfulPayments failedPayments
     canceledPayments remainingPayments =
     (if \<bar>successfulPayments + failedPayments\<bar> \<le> MAX_SAFE
         \<and> \<bar>successfulPayments + failedPayments + canceledPayments\<bar> \<le> MAX_SAFE
         \<and> \<bar>successfulPayments + failedPayments + canceledPayments + remainingPayments\<bar>
             \<le> MAX_SAFE
      then totalPayments \<noteq>
             successfulPayments + failedPayments + canceledPayments + remainingPayments
      else rounded totalPayments successfulPayments failedPayments canceledPayments
             remainingPayments)"



section \<open>Payment normalisation (helpers/formatPaymentDetails)\<close>

record ApiPaymentDisbursement =
  pd_id :: "string option"
  pd_name :: "string option"

record ApiReceiver =
  receiver_id :: "string option"

record ApiReceiverWallet =
  rw_id :: "string option"
  rw_receiver :: "ApiReceiver option"

record ApiPaymentHistory =
  ph_status :: "string option"
  ph_timestamp :: "string option"
  ph_status_message :: "string option"

text \<open>
  The raw payment, with the fields \<open>formatPaymentDetails\<close> reads. The amount is a JSON
  number, absent or a rational.
\<close>

record ApiPayment =
  p_id :: "string option"
  p_created_at :: "string option"
  amount :: "rat option"
  p_asset :: "ApiAsset option"
  p_disbursement :: "ApiPaymentDisbursement option"
  receiver_wallet :: "ApiReceiverWallet option"
  stellar_transaction_id :: "string option"
  stellar_address :: "string option"
  external_payment_id :: "string option"
  circle_transfer_request_id :: "string option"
  p_status :: "string option"
  p_status_history :: "ApiPaymentHistory list option"

record PaymentHistory =
  updatedAt :: "string option"
  message :: string
  pStatus :: "string option"

record PaymentDetails =
  pId :: "string option"
  pCreatedAt :: "string option"
  disbursementName :: string
  disbursementId :: string
  receiverId :: "string option"
  receiverWalletId :: "string option"
  transactionId :: "string option"
  senderAddress :: "string option"
  pTotalAmount :: "rat option"
  assetCode :: "string option"
  externalPaymentId :: "string option"
  circleTransferRequestId :: "string option"
  paymentStatus :: "string option"
  pStatusHistory :: "PaymentHistory list"

text \<open>\<open>s || dflt\<close> on an optional string.\<close>

definition or_default :: "string option \<Rightarrow> string \<Rightarrow> string" where
  "or_default v dflt = (case v of None \<Rightarrow> dflt | Some s \<Rightarrow> if s = [] then dflt else s)"

definition payment_context :: string where
  "payment_context = ''PaymentFormat''"

definition payment_fail :: "log_entry list \<Rightarrow> string \<Rightarrow> log_entry list \<times> (error + 'a)" where
  "payment_fail lg msg =
     (lg @ [Log Err ''Failed to format payment details'' payment_context], Inl (Error msg))"

definition payment_history ::
  "(ApiPaymentHistory list \<Rightarrow> ApiPaymentHistory list) \<Rightarrow>
   ApiPaymentHistory list option \<Rightarrow> PaymentHistory list" where
  "payment_history sortByDate hs =
     (case hs of
        None \<Rightarrow> []
      | Some l \<Rightarrow>
          map (\<lambda>h. \<lparr> updatedAt = ph_timestamp h,
                      message = or_default (ph_status_message h) ''Status updated'',
                      pStatus = ph_status h \<rparr>)
              (sortByDate (filter (\<lambda>h. truthy (ph_timestamp h) \<and> truthy (ph_status h)) l)))"

text \<open>\<open>!payment.amount || payment.amount <= 0\<close>: an absent amount and zero are falsy.\<close>

definition amount_rejected :: "rat option \<Rightarrow> bool" where
  "amount_rejected a = (case a of None \<Rightarrow> True | Some x \<Rightarrow> x = 0 \<or> x \<le> 0)"

definition formatPaymentDetails ::
  "(ApiPaymentHistory list \<Rightarrow> ApiPaymentHistory list) \<Rightarrow>
   ApiPayment \<Rightarrow> log_entry list \<times> (error + PaymentDetails)" where
  "formatPaymentDetails sortByDate payment =
     (if \<not> truthy (p_id payment) then
        payment_fail [Log Warn ''Payment missing ID'' payment_context]
          ''Payment ID is required''
      else if amount_rejected (amount payment) then
        payment_fail [Log Warn ''Invalid payment amount'' payment_context]
          ''Payment amount must be greater than 0''
      else if \<not> truthy (opt_field (p_asset payment) asset_code) then
        payment_fail [Log Warn ''Payment missing asset code'' payment_context]
          ''Payment asset code is required''
      else
        (let history = payment_history sortByDate (p_status_history payment);
             disbursementName' = or_default (opt_field (p_disbursement payment) pd_name)
                                   ''Direct Payment'';
             disbursementId' = or_default (opt_field (p_disbursement payment) pd_id) []
         in ([Log Info ''Payment details formatted successfully'' payment_context],
             Inr \<lparr> pId = p_id payment,
                   pCreatedAt = p_created_at payment,
                   disbursementName = disbursementName',
                   disbursementId = disbursementId',
                   receiverId =
                     opt_field (opt_field (receiver_wallet payment) rw_receiver) receiver_id,
                   receiverWalletId = opt_field (receiver_wallet payment) rw_id,
                   transactionId = stellar_transaction_id payment,
                   senderAddress = stellar_address payment,
                   pTotalAmount = amount payment,
                   assetCode = opt_field (p_asset payment) asset_code,
                   externalPaymentId = external_payment_id payment,
                   circleTransferRequestId = circle_transfer_request_id payment,
                   paymentStatus = p_status payment,
                   pStatusHistory = history \<rparr>)))"

section \<open>Exact decimals (the bignumber.js values used by the CSV helpers)\<close>

text \<open>
  The CSV helpers compute with \<open>BigNumber\<close> values of the library bignumber.js in its
  default configuration (\<open>DECIMAL_PLACES = 20\<close>, \<open>ROUNDING_MODE = ROUND_HALF_UP\<close>,
  exponent range \<open>[-1e7, 1e7]\<close>, \<open>DEBUG\<close> off). A value is \<open>NaN\<close>, an infinity with its
  sign (\<open>True\<close> for negative), the negative zero, or a finite rational; \<open>BN_Fin 0\<close> is
  the positive zero. Finite arithmetic is exact.
\<close>

datatype BigNumber = BN_NaN | BN_Inf bool | BN_NegZero | BN_Fin rat

definition MAX_EXP :: nat where
  "MAX_EXP = 10000000"

text \<open>
  A magnitude whose leading digit has an exponent above \<open>MAX_EXP\<close> is at least
  \<open>overflow_bound\<close> and becomes an infinity; one whose leading digit has an exponent below
  \<open>-MAX_EXP\<close> is below \<open>underflow_bound\<close> and becomes a zero of the same sign.
\<close>

definition overflow_bound :: rat where
  "overflow_bound = 10 ^ (MAX_EXP + 1)"

definition underflow_bound :: rat where
  "underflow_bound = 1 / 10 ^ MAX_EXP"

definition bn_norm :: "rat \<Rightarrow> BigNumber" where
  "bn_norm q =
     (if q = 0 then BN_Fin 0
      else if overflow_bound \<le> \<bar>q\<bar> then BN_Inf (q < 0)
      else if \<bar>q\<bar> < underflow_bound then (if q < 0 then BN_NegZero else BN_Fin 0)
      else BN_Fin q)"

definition bn_clamp :: "BigNumber \<Rightarrow> BigNumber" where
  "bn_clamp x = (case x of BN_Fin q \<Rightarrow> bn_norm q | _ \<Rightarrow> x)"

definition isNaN :: "BigNumber \<Rightarrow> bool" where
  "isNaN x = (x = BN_NaN)"

text \<open>\<open>isNegative\<close> reads the sign, so it holds of the negative zero.\<close>

definition isNegative :: "BigNumber \<Rightarrow> bool" where
  "isNegative x =
     (case x of BN_NaN \<Rightarrow> False | BN_Inf s \<Rightarrow> s | BN_NegZero \<Rightarrow> True | BN_Fin q \<Rightarrow> q < 0)"

definition isZero :: "BigNumber \<Rightarrow> bool" where
  "isZero x = (x = BN_NegZero \<or> x = BN_Fin 0)"

definition plus :: "BigNumber \<Rightarrow> BigNumber \<Rightarrow> BigNumber" where
  "plus x y =
     (case (x, y) of
        (BN_NaN, _) \<Rightarrow> BN_NaN
      | (_, BN_NaN) \<Rightarrow> BN_NaN
      | (BN_Inf s, BN_Inf t) \<Rightarrow> if s = t then BN_Inf s else BN_NaN
      | (BN_Inf s, _) \<Rightarrow> BN_Inf s
      | (_, BN_Inf t) \<Rightarrow> BN_Inf t
      | (BN_NegZero, BN_NegZero) \<Rightarrow> BN_NegZero
      | (BN_NegZero, BN_Fin b) \<Rightarrow> BN_Fin b
      | (BN_Fin a, BN_NegZero) \<Rightarrow> BN_Fin a
      | (BN_Fin a, BN_Fin b) \<Rightarrow> bn_norm (a + b))"

text \<open>Rounding to \<open>dp\<close> decimal places, ties away from zero.\<close>

definition round_half_up :: "nat \<Rightarrow> rat \<Rightarrow> rat" where
  "round_half_up dp q = sgn q * of_int \<lfloor>\<bar>q\<bar> * 10 ^ dp + 1 / 2\<rfloor> / 10 ^ dp"

definition DECIMAL_PLACES :: nat where
  "DECIMAL_PLACES = 20"

text \<open>\<open>x.dividedBy(n)\<close> for an array length \<open>n\<close>.\<close>

definition dividedBy :: "BigNumber \<Rightarrow> nat \<Rightarrow> BigNumber" where
  "dividedBy x n =
     (case x of
        BN_NaN \<Rightarrow> BN_NaN
      | BN_Inf s \<Rightarrow> BN_Inf s
      | BN_NegZero \<Rightarrow> if n = 0 then BN_NaN else BN_NegZero
      | BN_Fin q \<Rightarrow>
          if n = 0 then (if q = 0 then BN_NaN else BN_Inf (q < 0))
          else (let r = round_half_up DECIMAL_PLACES (q / of_nat n)
                in if r = 0 \<and> q < 0 then BN_NegZero else BN_Fin r))"

text \<open>The order of \<open>comparedTo\<close>: no value is below or above \<open>NaN\<close>, the zeros are equal.\<close>

definition bn_key :: "BigNumber \<Rightarrow> int \<times> rat" where
  "bn_key x =
     (case x of BN_NaN \<Rightarrow> (0, 0) | BN_Inf s \<Rightarrow> (if s then -1 else 1, 0)
      | BN_NegZero \<Rightarrow> (0, 0) | BN_Fin q \<Rightarrow> (0, q))"

definition lt :: "BigNumber \<Rightarrow> BigNumber \<Rightarrow> bool" where
  "lt x y =
     (x \<noteq> BN_NaN \<and> y \<noteq> BN_NaN \<and>
      (fst (bn_key x) < fst (bn_key y) \<or>
       fst (bn_key x) = fst (bn_key y) \<and> snd (bn_key x) < snd (bn_key y)))"

text \<open>
  \<open>BigNumber.minimum(...xs)\<close> and \<open>BigNumber.maximum(...xs)\<close>, as of bignumber.js 9.1.2:
  the running value \<open>x\<close> starts at the first argument, and the next argument \<open>y\<close>
  replaces it when \<open>y\<close> is \<open>NaN\<close>, when \<open>y\<close> is strictly larger (for the maximum) or
  strictly smaller (for the minimum), or when the two compare equal and \<open>x\<close> has the
  negative sign (for the maximum) or the positive sign (for the minimum). A running
  \<open>NaN\<close> compares with nothing and stays. No argument at all gives \<open>NaN\<close>.
\<close>

definition compares_equal :: "BigNumber \<Rightarrow> BigNumber \<Rightarrow> bool" where
  "compares_equal x y = (x \<noteq> BN_NaN \<and> y \<noteq> BN_NaN \<and> bn_key x = bn_key y)"

fun maxOrMin :: "bool \<Rightarrow> BigNumber \<Rightarrow> BigNumber list \<Rightarrow> BigNumber" where
  "maxOrMin want_max x [] = x"
| "maxOrMin want_max x (y # ys) =
     maxOrMin want_max
       (if y = BN_NaN \<or> (if want_max then lt x y else lt y x)
           \<or> (compares_equal x y \<and> isNegative x = want_max)
        then y else x)
       ys"

definition minimum :: "BigNumber list \<Rightarrow> BigNumber" where
  "minimum xs = (case xs of [] \<Rightarrow> BN_NaN | x # ys \<Rightarrow> maxOrMin False x ys)"

definition maximum :: "BigNumber list \<Rightarrow> BigNumber" where
  "maximum xs = (case xs of [] \<Rightarrow> BN_NaN | x # ys \<Rightarrow> maxOrMin True x ys)"

text \<open>
  \<open>x.decimalPlaces()\<close>: the number of digits after the decimal point of a finite value,
  \<open>null\<close> for \<open>NaN\<close> and the infinities. Multiplying by ten divides the denominator of
  the reduced fraction by its common factor with ten, until the denominator is one.
\<close>

function denominator_places :: "int \<Rightarrow> nat" where
  "denominator_places d =
     (if d \<le> 1 \<or> gcd d 10 = 1 then 0 else Suc (denominator_places (d div gcd d 10)))"
  by pat_completeness auto
termination
proof (relation "measure nat")
  fix d :: int
  assume a: "\<not> (d \<le> 1 \<or> gcd d 10 = 1)"
  have g0: "0 < gcd d 10" by simp
  with a have "1 < gcd d 10" by linarith
  with a have "d div gcd d 10 < d" by (intro int_div_less_self) auto
  moreover from a have "0 < d" by simp
  ultimately show "(d div gcd d 10, d) \<in> measure nat" by simp
qed simp

definition decimalPlaces_of :: "BigNumber \<Rightarrow> nat option" where
  "decimalPlaces_of x =
     (case x of BN_NaN \<Rightarrow> None | BN_Inf s \<Rightarrow> None | BN_NegZero \<Rightarrow> Some 0
      | BN_Fin q \<Rightarrow> Some (denominator_places (snd (quotient_of q))))"

subsection \<open>The constructor on strings\<close>

definition is_digit :: "char \<Rightarrow> bool" where
  "is_digit c = (c \<in> set ''0123456789'')"

definition is_word :: "char \<Rightarrow> bool" where
  "is_word c =
     (is_digit c \<or> c = CHR ''_''
      \<or> c \<in> set ''abcdefghijklmnopqrstuvwxyz'' \<or> c \<in> set ''ABCDEFGHIJKLMNOPQRSTUVWXYZ'')"

definition digit_value :: "char \<Rightarrow> nat" where
  "digit_value c = of_char c - 48"

definition digits_value :: "string \<Rightarrow> nat" where
  "digits_value ds = foldl (\<lambda>n c. 10 * n + digit_value c) 0 ds"

text \<open>\<open>[+-]?\d+\<close>, the text after the exponent marker.\<close>

definition parse_exponent :: "string \<Rightarrow> int option" where
  "parse_exponent s =
     (let neg = (case s of c # _ \<Rightarrow> c = CHR ''-'' | [] \<Rightarrow> False);
          ds = (case s of c # r \<Rightarrow> if c = CHR ''+'' \<or> c = CHR ''-'' then r else s | [] \<Rightarrow> [])
      in if ds \<noteq> [] \<and> list_all is_digit ds
         then Some (if neg then - int (digits_value ds) else int (digits_value ds))
         else None)"

text \<open>
  The decimal notation the constructor accepts directly, the regular expression
  \<open>/^-?(?:\d+(?:\.\d*)?|\.\d+)(?:e[+-]?\d+)?$/i\<close>. The result is the sign, the
  digits of the mantissa read as a natural number, and the power of ten that scales it.
\<close>

definition not_exponent_marker :: "char \<Rightarrow> bool" where
  "not_exponent_marker c = (c \<noteq> CHR ''e'' \<and> c \<noteq> CHR ''E'')"

definition parse_decimal :: "string \<Rightarrow> (bool \<times> nat \<times> int) option" where
  "parse_decimal str =
     (let neg = (case str of c # _ \<Rightarrow> c = CHR ''-'' | [] \<Rightarrow> False);
          body = (if neg then tl str else str);
          mantissa = takeWhile not_exponent_marker body;
          rest = dropWhile not_exponent_marker body;
          ip = takeWhile is_digit mantissa;
          fp = (case dropWhile is_digit mantissa of [] \<Rightarrow> [] | _ # f \<Rightarrow> f);
          mantissa_ok =
            (case dropWhile is_digit mantissa of
               [] \<Rightarrow> ip \<noteq> []
             | c # f \<Rightarrow> c = CHR ''.'' \<and> list_all is_digit f \<and> (ip \<noteq> [] \<or> f \<noteq> []));
          ex = (case rest of [] \<Rightarrow> Some 0 | _ # es \<Rightarrow> parse_exponent es)
      in if mantissa_ok
         then (case ex of
                 None \<Rightarrow> None
               | Some e \<Rightarrow> Some (neg, digits_value (ip @ fp), e - int (length fp)))
         else None)"

definition pow10 :: "int \<Rightarrow> rat" where
  "pow10 k = (if 0 \<le> k then 10 ^ nat k else 1 / 10 ^ nat (- k))"

definition of_decimal :: "bool \<times> nat \<times> int \<Rightarrow> BigNumber" where
  "of_decimal d =
     (case d of (neg, n, k) \<Rightarrow>
        if n = 0 then (if neg then BN_NegZero else BN_Fin 0)
        else bn_norm ((if neg then - 1 else 1) * of_nat n * pow10 k))"

text \<open>
  Text that is not in decimal notation goes through the library's \<open>parseNumeric\<close>. It
  removes leading white space, one leading \<open>+\<close> that a word character or a point
  follows, and trailing white space (\<open>/^\s*\+(?=[\w.])|^\s+|\s+$/g\<close>).
\<close>

definition strip_whitespaceOrPlus :: "string \<Rightarrow> string" where
  "strip_whitespaceOrPlus str =
     (let s1 = dropWhile is_space str;
          s2 = (case s1 of
                  c # d # r \<Rightarrow> if c = CHR ''+'' \<and> (is_word d \<or> d = CHR ''.'') then d # r else s1
                | _ \<Rightarrow> s1)
      in rev (dropWhile is_space (rev s2)))"

text \<open>
  \<open>/^(-?)0([xbo])(?=\w[\w.]*$)/i\<close>: a prefix for base 16, 2 or 8. The result is the base
  and the text with the prefix removed and the sign kept.
\<close>

definition basePrefix :: "string \<Rightarrow> (nat \<times> string) option" where
  "basePrefix s =
     (let neg = (case s of c # _ \<Rightarrow> c = CHR ''-'' | [] \<Rightarrow> False);
          body = (if neg then tl s else s)
      in case body of
           z # p # d # r \<Rightarrow>
             if z = CHR ''0'' \<and> is_word d \<and> list_all (\<lambda>c. is_word c \<or> c = CHR ''.'') r
             then (if p = CHR ''x'' \<or> p = CHR ''X'' then Some (16, (if neg then ''-'' else []) @ d # r)
                   else if p = CHR ''b'' \<or> p = CHR ''B'' then Some (2, (if neg then ''-'' else []) @ d # r)
                   else if p = CHR ''o'' \<or> p = CHR ''O'' then Some (8, (if neg then ''-'' else []) @ d # r)
                   else None)
             else None
         | _ \<Rightarrow> None)"

text \<open>
  The conversion of a number written in base 16, 2 or 8 is taken as the parameter
  \<open>radix\<close> (base, then the digits); its result is brought into the exponent range.
  After the removals, \<open>Infinity\<close> and \<open>NaN\<close> with an optional minus sign are accepted, a
  base prefix hands over to \<open>radix\<close>, and text that the removals changed is given to the
  constructor again, where only the decimal notation can still succeed. Everything
  else is \<open>NaN\<close>.
\<close>

definition parseNumeric :: "(nat \<Rightarrow> string \<Rightarrow> BigNumber) \<Rightarrow> string \<Rightarrow> BigNumber" where
  "parseNumeric radix str =
     (let s = strip_whitespaceOrPlus str
      in if s = ''NaN'' \<or> s = ''-NaN'' then BN_NaN
         else if s = ''Infinity'' then BN_Inf False
         else if s = ''-Infinity'' then BN_Inf True
         else (case basePrefix s of
                 Some (base, ds) \<Rightarrow> bn_clamp (radix base ds)
               | None \<Rightarrow>
                   if str \<noteq> s
                   then (case parse_decimal s of Some d \<Rightarrow> of_decimal d | None \<Rightarrow> BN_NaN)
                   else BN_NaN))"

definition new_BigNumber :: "(nat \<Rightarrow> string \<Rightarrow> BigNumber) \<Rightarrow> string \<Rightarrow> BigNumber" where
  "new_BigNumber radix str =
     (case parse_decimal str of Some d \<Rightarrow> of_decimal d | None \<Rightarrow> parseNumeric radix str)"

section \<open>CSV aggregation (helpers/csvTotalAmount)\<close>

text \<open>\<open>csvContent.split("\\n").filter(line => line.trim() !== '')\<close>\<close>

definition nonblank_lines :: "string \<Rightarrow> string list" where
  "nonblank_lines csvContent = filter (\<lambda>line. trim line \<noteq> []) (split CHR 0x0A csvContent)"

text \<open>\<open>line.split(",").map(val => val.trim())\<close>\<close>

definition cells :: "string \<Rightarrow> string list" where
  "cells line = map trim (split CHR '','' line)"

record CSVStatistics =
  rowCount :: nat
  totalAmount :: BigNumber
  averageAmount :: BigNumber
  minAmount :: BigNumber
  maxAmount :: BigNumber
  validRows :: nat
  invalidRows :: nat

text \<open>
  The body of \<open>rows.forEach\<close> in \<open>getCSVStatistics\<close>, on the pair of the collected
  amounts and the count of invalid rows. The \<open>catch\<close> of the body is not reachable:
  splitting, trimming and the constructor do not throw.
\<close>

definition statistics_row ::
  "(nat \<Rightarrow> string \<Rightarrow> BigNumber) \<Rightarrow> int \<Rightarrow> BigNumber list \<times> nat \<Rightarrow> string \<Rightarrow>
   BigNumber list \<times> nat" where
  "statistics_row radix amountIndex st line =
     (case st of (amounts, invalid) \<Rightarrow>
        if trim line = [] then (amounts, invalid)
        else (case at_index (cells line) amountIndex of
                None \<Rightarrow> (amounts, invalid + 1)
              | Some amountValue \<Rightarrow>
                  if amountValue \<noteq> [] then
                    (let amount = new_BigNumber radix amountValue
                     in if \<not> isNaN amount \<and> \<not> isNegative amount
                        then (amounts @ [amount], invalid)
                        else (amounts, invalid + 1))
                  else (amounts, invalid + 1)))"

definition zero_statistics :: "nat \<Rightarrow> nat \<Rightarrow> CSVStatistics" where
  "zero_statistics rows invalid =
     \<lparr> rowCount = rows, totalAmount = BN_Fin 0, averageAmount = BN_Fin 0,
       minAmount = BN_Fin 0, maxAmount = BN_Fin 0, validRows = 0, invalidRows = invalid \<rparr>"

definition getCSVStatistics ::
  "(nat \<Rightarrow> string \<Rightarrow> BigNumber) \<Rightarrow> string \<Rightarrow> string \<Rightarrow> CSVStatistics" where
  "getCSVStatistics radix csvContent amountColumn =
     (case nonblank_lines csvContent of
        [] \<Rightarrow> zero_statistics 0 0
      | [header] \<Rightarrow> zero_statistics 0 0
      | header # rows \<Rightarrow>
          (let columns = cells header;
               amountIndex = indexOf columns amountColumn
           in if amountIndex = -1 then zero_statistics (length rows) (length rows)
              else (case foldl (statistics_row radix amountIndex) ([], 0) rows of
                      (amounts, invalid) \<Rightarrow>
                        if length amounts = 0 then zero_statistics (length rows) invalid
                        else (let total = foldl plus (BN_Fin 0) amounts
                              in \<lparr> rowCount = length rows,
                                   totalAmount = total,
                                   averageAmount = dividedBy total (length amounts),
                                   minAmount = minimum amounts,
                                   maxAmount = maximum amounts,
                                   validRows = length amounts,
                                   invalidRows = invalid \<rparr>))))"

subsection \<open>\<open>csvTotalAmount\<close>\<close>

text \<open>Decimal notation of a natural number, for the row numbers in the error texts.\<close>

fun show_nat :: "nat \<Rightarrow> string" where
  "show_nat n =
     (if n < 10 then [''0123456789'' ! n]
      else show_nat (n div 10) @ [''0123456789'' ! (n mod 10)])"

declare show_nat.simps [simp del]

text \<open>The variables the \<open>forEach\<close> of \<open>csvTotalAmount\<close> updates, and the entries it logs.\<close>

record csv_totals =
  sum_totalAmount :: BigNumber
  sum_validRows :: nat
  sum_invalidRows :: nat
  sum_errors :: "string list"
  sum_log :: "log_entry list"

definition csv_context :: string where
  "csv_context = ''CSVProcessing''"

definition invalid_row :: "csv_totals \<Rightarrow> string \<Rightarrow> csv_totals" where
  "invalid_row st err =
     st\<lparr> sum_invalidRows := sum_invalidRows st + 1, sum_errors := sum_errors st @ [err] \<rparr>"

text \<open>
  The body of \<open>rows.forEach((line, index) => ...)\<close>. A value with more decimal places
  than \<open>decimalPlaces\<close> logs a warning and is then added like any other accepted value.
\<close>

definition total_row ::
  "(nat \<Rightarrow> string \<Rightarrow> BigNumber) \<Rightarrow> int \<Rightarrow> int \<Rightarrow> csv_totals \<Rightarrow> nat \<times> string \<Rightarrow> csv_totals" where
  "total_row radix amountIndex decimalPlaces st row =
     (case row of (index, line) \<Rightarrow>
        if trim line = [] then st
        else (case at_index (cells line) amountIndex of
                None \<Rightarrow> invalid_row st (''Row '' @ show_nat (index + 2) @ '': Empty amount value'')
              | Some amountValue \<Rightarrow>
                  if amountValue = [] then
                    invalid_row st (''Row '' @ show_nat (index + 2) @ '': Empty amount value'')
                  else
                    (let amount = new_BigNumber radix amountValue
                     in if isNaN amount then
                          invalid_row st (''Row '' @ show_nat (index + 2)
                                          @ '': Invalid amount format: '' @ amountValue)
                        else if isNegative amount then
                          invalid_row st (''Row '' @ show_nat (index + 2)
                                          @ '': Negative amount: '' @ amountValue)
                        else
                          (let st1 = (case decimalPlaces_of amount of
                                        Some dp \<Rightarrow>
                                          if int dp > decimalPlaces
                                          then st\<lparr> sum_log := sum_log st @
                                                 [Log Warn ''Amount exceeds decimal places limit''
                                                    csv_context] \<rparr>
                                          else st
                                      | None \<Rightarrow> st)
                           in st1\<lparr> sum_totalAmount := plus (sum_totalAmount st1) amount,
                                   sum_validRows := sum_validRows st1 + 1 \<rparr>))))"

text \<open>\<open>totalAmount = BigNumber(0)\<close>, the counters at zero, no error and no log entry yet.\<close>

definition initial_totals :: csv_totals where
  "initial_totals =
     \<lparr> sum_totalAmount = BN_Fin 0, sum_validRows = 0, sum_invalidRows = 0,
       sum_errors = [], sum_log = [] \<rparr>"

definition total_rows ::
  "(nat \<Rightarrow> string \<Rightarrow> BigNumber) \<Rightarrow> int \<Rightarrow> int \<Rightarrow> string list \<Rightarrow> csv_totals" where
  "total_rows radix amountIndex decimalPlaces rows =
     foldl (total_row radix amountIndex decimalPlaces) initial_totals
       (zip [0 ..< length rows] rows)"

text \<open>
  \<open>csvTotalAmount\<close> on the text the file reader delivers: \<open>None\<close> stands for a call
  without file, \<open>Some text\<close> for the text read. The result is what the promise resolves
  to (\<open>None\<close> for \<open>null\<close>) together with the log. The promise is rejected only when the
  reader fails, which is outside the function.
\<close>

definition csvTotalAmount ::
  "(nat \<Rightarrow> string \<Rightarrow> BigNumber) \<Rightarrow> string option \<Rightarrow> string \<Rightarrow> int \<Rightarrow>
   log_entry list \<times> BigNumber option" where
  "csvTotalAmount radix csvFile columnName decimalPlaces =
     (case csvFile of
        None \<Rightarrow> ([], None)
      | Some csvRows \<Rightarrow>
          if csvRows = [] then ([Log Warn ''CSV file is empty'' csv_context], None)
          else (case nonblank_lines csvRows of
                  [] \<Rightarrow> ([Log Warn ''CSV file has insufficient data'' csv_context], None)
                | [header] \<Rightarrow> ([Log Warn ''CSV file has insufficient data'' csv_context], None)
                | header # rows \<Rightarrow>
                    (let columns = cells header;
                         amountIndex = indexOf columns columnName
                     in if amountIndex = -1
                        then ([Log Warn ''Amount column not found in CSV'' csv_context], None)
                        else (let st = total_rows radix amountIndex decimalPlaces rows
                              in (sum_log st
                                  @ [Log Info ''CSV total amount calculated successfully''
                                       csv_context]
                                  @ (if sum_invalidRows st > 0
                                     then [Log Warn ''CSV processing completed with errors''
                                             csv_context]
                                     else []),
                                  Some (sum_totalAmount st))))))"

section \<open>Values the two loops accumulate\<close>

text \<open>
  Both loops add a value only after \<open>!amount.isNaN() && !amount.isNegative()\<close>.
\<close>

definition accepted :: "BigNumber \<Rightarrow> bool" where
  "accepted x = (\<not> isNaN x \<and> \<not> isNegative x)"

text \<open>A value within the exponent range: bringing it into the range changes nothing.\<close>

definition in_range :: "BigNumber \<Rightarrow> bool" where
  "in_range x = (bn_clamp x = x)"

text \<open>
  The rational an accepted value stands for in a sum, with the overflow bound for the
  positive infinity, and the value a non-negative exact sum is stored as.
\<close>

definition magnitude :: "BigNumber \<Rightarrow> rat" where
  "magnitude x = (case x of BN_Fin q \<Rightarrow> q | BN_Inf s \<Rightarrow> overflow_bound | _ \<Rightarrow> 0)"

definition saturate :: "rat \<Rightarrow> BigNumber" where
  "saturate t = (if overflow_bound \<le> t then BN_Inf False else BN_Fin t)"

definition summable :: "rat \<Rightarrow> bool" where
  "summable t = (t = 0 \<or> underflow_bound \<le> t)"

text \<open>The amounts one row contributes to \<open>amounts\<close> in \<open>getCSVStatistics\<close>: one or none.\<close>

definition row_amount :: "(nat \<Rightarrow> string \<Rightarrow> BigNumber) \<Rightarrow> int \<Rightarrow> string \<Rightarrow> BigNumber list" where
  "row_amount radix amountIndex line = fst (statistics_row radix amountIndex ([], 0) line)"

section \<open>Example inputs\<close>



text \<open>A payment with an id and the amount zero, and one without id and a negative amount.\<close>

definition example_payment :: ApiPayment where
  "example_payment =
     \<lparr> p_id = Some ''p-1'', p_created_at = None, amount = Some 0,
       p_asset = Some \<lparr> asset_id = None, asset_code = Some ''USDC'' \<rparr>,
       p_disbursement = None, receiver_wallet = None,
       stellar_transaction_id = None, stellar_address = None,
       external_payment_id = None, circle_transfer_request_id = None,
       p_status = Some ''pending'', p_status_history = None \<rparr>"

definition example_payment_without_id :: ApiPayment where
  "example_payment_without_id =
     \<lparr> p_id = None, p_created_at = None, amount = Some (- 5),
       p_asset = Some \<lparr> asset_id = None, asset_code = Some ''USDC'' \<rparr>,
       p_disbursement = None, receiver_wallet = None,
       stellar_transaction_id = None, stellar_address = None,
       external_payment_id = None, circle_transfer_request_id = None,
       p_status = Some ''pending'', p_status_history = None \<rparr>"

text \<open>The CSV text of the specification's example, its lines joined by line feeds.\<close>

definition csv_example :: string where
  "csv_example =
     ''amount,note'' @ [CHR 0x0A] @ ''10.1234567,a'' @ [CHR 0x0A] @ ''-5,b'' @ [CHR 0x0A]
     @ ''abc,c'' @ [CHR 0x0A] @ '',d'' @ [CHR 0x0A] @ ''20.5,e''"

text \<open>Two texts with the same header and the same two rows in opposite orders.\<close>

definition csv_forward :: string where
  "csv_forward = ''amount'' @ [CHR 0x0A] @ ''1.5'' @ [CHR 0x0A] @ ''2.25''"

definition csv_backward :: string where
  "csv_backward = ''amount'' @ [CHR 0x0A] @ ''2.25'' @ [CHR 0x0A] @ ''1.5''"

text \<open>A text without an \<open>amount\<close> column.\<close>

definition csv_other_columns :: string where
  "csv_other_columns = ''name,note'' @ [CHR 0x0A] @ ''1,a'' @ [CHR 0x0A] @ ''2,b''"

text \<open>A base conversion that yields \<open>NaN\<close>, to close the examples.\<close>

definition no_radix :: "nat \<Rightarrow> string \<Rightarrow> BigNumber" where
  "no_radix base digits = BN_NaN"


section \<open>Role assignment\<close>

lemma getRoleInfo_sentinel:
  "getRoleInfo Null = defaultRole"
  "getRoleInfo Undefined = defaultRole"
  "r \<notin> {''owner'', ''business'', ''developer'', ''financial_controller''}
     \<Longrightarrow> getRoleInfo (Role r) = defaultRole"
  by simp_all

lemma manage_roles_owner_only:
  "''manage_roles'' \<in> set (permissions (getRoleInfo role)) \<longleftrightarrow> role = Role ''owner''"
  by (cases role) (simp_all add: defaultRole_def)

text \<open>
  Only the owner role holds \<open>manage_roles\<close>, and no role has a higher level than the
  owner, so every denial of \<open>validateRoleChangePermission\<close> comes from its first check.
\<close>

lemma validateRoleChangePermission_cases:
  "validateRoleChangePermission currentUserRole newRole =
     (if currentUserRole = Role ''owner'' then \<lparr> isValid = True, reason = None \<rparr>
      else \<lparr> isValid = False, reason = Some reason_no_manage_roles \<rparr>)"
proof (cases "currentUserRole = Role ''owner''")
  case True
  have "level (getRoleInfo newRole) \<le> 100"
    by (cases newRole) (simp_all add: defaultRole_def)
  with True show ?thesis
    by (simp add: validateRoleChangePermission_def)
next
  case False
  then have "''manage_roles'' \<notin> set (permissions (getRoleInfo currentUserRole))"
    by (simp only: manage_roles_owner_only not_False_eq_True)
  with False show ?thesis
    by (simp add: validateRoleChangePermission_def Let_def)
qed

text \<open>
  C1, as the code has it. A business user assigning the owner role is denied, and the
  reason is the one of the first check, the missing \<open>manage_roles\<close> permission:
  \<open>Insufficient permissions to manage user roles\<close>. An owner may assign the owner
  role and may assign the business role.
\<close>

theorem role_change_examples:
  "validateRoleChangePermission (Role ''business'') (Role ''owner'')
     = \<lparr> isValid = False, reason = Some ''Insufficient permissions to manage user roles'' \<rparr>
   \<and> validateRoleChangePermission (Role ''owner'') (Role ''owner'')
     = \<lparr> isValid = True, reason = None \<rparr>
   \<and> validateRoleChangePermission (Role ''owner'') (Role ''business'')
     = \<lparr> isValid = True, reason = None \<rparr>"
  by (simp add: validateRoleChangePermission_def reason_no_manage_roles_def)

text \<open>
  C1 as the specification words it asks for a reason about insufficient rank. The
  reason returned is not the one of the level check
  (\<open>Cannot assign a role with higher permissions than your own\<close>), which is never
  reached for a business user.
\<close>

theorem role_change_reason_counterexample:
  "reason (validateRoleChangePermission (Role ''business'') (Role ''owner''))
     = Some ''Insufficient permissions to manage user roles''
   \<and> reason (validateRoleChangePermission (Role ''business'') (Role ''owner''))
     \<noteq> Some ''Cannot assign a role with higher permissions than your own''"
  by (simp add: validateRoleChangePermission_def reason_no_manage_roles_def)

section \<open>Terminal states\<close>

text \<open>
  C8. From the state \<open>completed\<close> no transition is allowed, whatever the next status,
  in the disbursement table and in the payment table.
\<close>

theorem completed_is_terminal:
  "validateDisbursementStatusTransition ''completed'' newStatus = Inr False
   \<and> validatePaymentStatusTransition ''completed'' newStatus = Inr False"
  by (simp add: validateDisbursementStatusTransition_def validatePaymentStatusTransition_def
      transition_allowed_def disbursement_transitions_def payment_transitions_def)

theorem completed_is_terminal_witness:
  "validateDisbursementStatusTransition ''completed'' ''processing'' = Inr False
   \<and> validatePaymentStatusTransition ''completed'' ''processing'' = Inr False"
  by (rule completed_is_terminal)

section \<open>Empty permission lists\<close>

text \<open>
  C9. For every role argument, \<open>null\<close>, \<open>undefined\<close> and unknown strings included,
  \<open>hasAllPermissions\<close> of the empty list is true and \<open>hasAnyPermission\<close> of the empty
  list is false.
\<close>

theorem empty_permission_lists:
  "hasAllPermissions role [] = True \<and> hasAnyPermission role [] = False"
  by (simp add: hasAllPermissions_def hasAnyPermission_def)

theorem empty_permission_lists_witness:
  "hasAllPermissions (Role ''intern'') [] = True \<and> hasAnyPermission (Role ''intern'') [] = False"
  by (rule empty_permission_lists)

section \<open>Payments with a rejected amount\<close>

text \<open>
  C4, as the code has it. A payment whose amount is absent, zero or negative is never
  normalised: \<open>formatPaymentDetails\<close> throws. With a non-empty id the error is the one
  of the amount check, \<open>Payment amount must be greater than 0\<close>; without one the
  earlier id check throws \<open>Payment ID is required\<close>.
\<close>

theorem payment_amount_rejected:
  assumes "amount payment = None \<or> (\<exists>a. amount payment = Some a \<and> a \<le> 0)"
  shows "snd (formatPaymentDetails sortByDate payment) =
           Inl (Error (if truthy (p_id payment) then ''Payment amount must be greater than 0''
                       else ''Payment ID is required''))"
  using assms
  by (auto simp: formatPaymentDetails_def payment_fail_def amount_rejected_def)

theorem payment_amount_rejected_witness:
  "(amount example_payment = None \<or> (\<exists>a. amount example_payment = Some a \<and> a \<le> 0))
   \<and> snd (formatPaymentDetails (\<lambda>l. l) example_payment) =
       Inl (Error ''Payment amount must be greater than 0'')"
proof -
  have h: "amount example_payment = None \<or> (\<exists>a. amount example_payment = Some a \<and> a \<le> 0)"
    by (simp add: example_payment_def)
  show ?thesis
    using h payment_amount_rejected [OF h, of "\<lambda>l. l"]
    by (simp add: example_payment_def truthy_def)
qed

text \<open>
  C4 as the specification words it asks for the error of an invalid value on every
  such payment. A payment without id and with the amount \<open>-5\<close> fails with the error
  of the missing id, not with the one of the amount.
\<close>

theorem payment_missing_id_counterexample:
  "amount example_payment_without_id = Some (- 5)
   \<and> snd (formatPaymentDetails (\<lambda>l. l) example_payment_without_id)
       = Inl (Error ''Payment ID is required'')
   \<and> snd (formatPaymentDetails (\<lambda>l. l) example_payment_without_id)
       \<noteq> Inl (Error ''Payment amount must be greater than 0'')"
  by (simp add: example_payment_without_id_def formatPaymentDetails_def payment_fail_def
      truthy_def)

section \<open>Valid disbursements\<close>


lemma or_zero_Some: "or_zero (Some n) = n"
  by (simp add: or_zero_def)

lemma or_zero_None: "or_zero None = 0"
  by (simp add: or_zero_def)

lemma statistics_mismatch_exact:
  assumes "\<bar>s + f\<bar> \<le> MAX_SAFE" and "\<bar>s + f + c\<bar> \<le> MAX_SAFE"
    and "\<bar>s + f + c + r\<bar> \<le> MAX_SAFE"
  shows "statistics_mismatch rounded t s f c r \<longleftrightarrow> t \<noteq> s + f + c + r"
  using assms by (simp add: statistics_mismatch_def)



section \<open>Facts about the exact decimals\<close>

lemma overflow_bound_ge: "10 ^ 20 \<le> overflow_bound"
  unfolding overflow_bound_def
  by (rule power_increasing) (simp_all add: MAX_EXP_def)

lemma underflow_bound_le: "underflow_bound \<le> 1 / 10 ^ 20"
proof -
  have a: "(10::rat) ^ 20 \<le> 10 ^ MAX_EXP"
    by (rule power_increasing) (simp_all add: MAX_EXP_def)
  have b: "(0::rat) < 10 ^ 20" by (rule zero_less_power) simp
  have "(1::rat) / 10 ^ MAX_EXP \<le> 1 / 10 ^ 20"
    by (rule frac_le [OF _ _ b a]) simp_all
  then show ?thesis by (simp only: underflow_bound_def)
qed

lemma bn_norm_moderate:
  assumes "1 / 10 ^ 20 \<le> \<bar>q\<bar>" and "\<bar>q\<bar> < 10 ^ 20"
  shows "bn_norm q = BN_Fin q"
proof -
  have "\<not> overflow_bound \<le> \<bar>q\<bar>" using assms(2) overflow_bound_ge by linarith
  moreover have "\<not> \<bar>q\<bar> < underflow_bound" using assms(1) underflow_bound_le by linarith
  moreover have "q \<noteq> 0" using assms(1) by auto
  ultimately show ?thesis by (simp add: bn_norm_def)
qed

lemma underflow_le_overflow: "underflow_bound \<le> overflow_bound"
proof -
  have "(1::rat) / 10 ^ 20 \<le> 10 ^ 20" by simp
  with underflow_bound_le have "underflow_bound \<le> 10 ^ 20" by (rule order_trans)
  then show ?thesis using overflow_bound_ge by (rule order_trans)
qed

lemma indexOf_lower: "- 1 \<le> indexOf xs x"
  by (induction xs) (auto simp: Let_def)

lemma indexOf_absent: "indexOf xs x = - 1 \<longleftrightarrow> x \<notin> set xs"
proof (induction xs)
  case Nil
  show ?case by simp
next
  case (Cons y ys)
  have "indexOf ys x + 1 \<noteq> - 1" using indexOf_lower [of ys x] by linarith
  with Cons show ?case by (auto simp: Let_def)
qed

lemma underflow_bound_pos: "0 < underflow_bound"
  by (simp add: underflow_bound_def)

lemma overflow_bound_pos: "0 < overflow_bound"
  by (simp add: overflow_bound_def)

lemma bn_clamp_norm: "bn_clamp (bn_norm q) = bn_norm q"
  by (simp add: bn_clamp_def bn_norm_def)

lemma in_range_norm: "in_range (bn_norm q)"
  by (simp add: in_range_def bn_clamp_norm)

lemma in_range_clamp: "in_range (bn_clamp x)"
  by (cases x) (simp_all add: in_range_def bn_clamp_def bn_norm_def)

lemma in_range_of_decimal: "in_range (of_decimal d)"
proof -
  have z: "in_range (BN_Fin 0)" "in_range BN_NegZero"
    by (simp_all add: in_range_def bn_clamp_def bn_norm_def)
  obtain neg n k where "d = (neg, n, k)" by (cases d)
  then show ?thesis using z in_range_norm by (simp add: of_decimal_def)
qed

lemma in_range_simple: "in_range BN_NaN" "in_range (BN_Inf s)"
  by (simp_all add: in_range_def bn_clamp_def)

lemma in_range_parseNumeric: "in_range (parseNumeric radix str)"
  by (auto simp: parseNumeric_def Let_def in_range_simple in_range_clamp in_range_of_decimal
      split: option.splits)

lemma in_range_new_BigNumber: "in_range (new_BigNumber radix str)"
  by (simp add: new_BigNumber_def in_range_parseNumeric in_range_of_decimal split: option.splits)

lemma good_cases:
  assumes "accepted x" and "in_range x"
  shows "x = BN_Inf False
       \<or> (\<exists>q. x = BN_Fin q \<and> 0 \<le> q \<and> summable q \<and> q < overflow_bound)"
proof (cases x)
  case (BN_Fin q)
  with assms(1) have q0: "0 \<le> q" by (simp add: accepted_def isNegative_def isNaN_def)
  from assms(2) BN_Fin have n: "bn_norm q = BN_Fin q" by (simp add: in_range_def bn_clamp_def)
  have "summable q \<and> q < overflow_bound"
  proof (cases "q = 0")
    case True
    then show ?thesis using overflow_bound_pos by (simp add: summable_def)
  next
    case False
    with n q0 show ?thesis
      by (auto simp: bn_norm_def summable_def split: if_splits)
  qed
  with BN_Fin q0 show ?thesis by simp
qed (use assms in \<open>auto simp: accepted_def isNegative_def isNaN_def\<close>)

lemma plus_step:
  assumes t: "0 \<le> t" "summable t" and a: "accepted a" "in_range a"
  shows "plus (saturate t) a = saturate (t + magnitude a)"
    and "0 \<le> t + magnitude a" and "summable (t + magnitude a)"
proof -
  from good_cases [OF a] consider
    (inf) "a = BN_Inf False"
    | (fin) q where "a = BN_Fin q" "0 \<le> q" "summable q" "q < overflow_bound"
    by blast
  then have "plus (saturate t) a = saturate (t + magnitude a)
      \<and> 0 \<le> t + magnitude a \<and> summable (t + magnitude a)"
  proof cases
    case inf
    with t overflow_bound_pos underflow_le_overflow show ?thesis
      by (auto simp: plus_def saturate_def magnitude_def summable_def)
  next
    case fin
    show ?thesis
    proof (cases "overflow_bound \<le> t")
      case True
      with fin t show ?thesis
        by (auto simp: plus_def saturate_def magnitude_def summable_def)
    next
      case False
      have s: "summable (t + q)" using t fin by (auto simp: summable_def)
      have "bn_norm (t + q) = saturate (t + q)"
      proof (cases "t + q = 0")
        case True
        then show ?thesis using overflow_bound_pos by (simp add: bn_norm_def saturate_def)
      next
        case nz: False
        with s have "underflow_bound \<le> t + q" by (simp add: summable_def)
        with nz t fin show ?thesis
          by (simp add: bn_norm_def saturate_def)
      qed
      with False fin t s show ?thesis
        by (simp add: plus_def saturate_def magnitude_def)
    qed
  qed
  then show "plus (saturate t) a = saturate (t + magnitude a)"
    and "0 \<le> t + magnitude a" and "summable (t + magnitude a)" by simp_all
qed

lemma foldl_plus_saturate:
  assumes "0 \<le> t" and "summable t" and "\<forall>a \<in> set xs. accepted a \<and> in_range a"
  shows "foldl plus (saturate t) xs = saturate (t + sum_list (map magnitude xs))"
  using assms
proof (induction xs arbitrary: t)
  case Nil
  show ?case by simp
next
  case (Cons a xs)
  then have a: "accepted a" "in_range a" by simp_all
  note st = plus_step [OF Cons.prems(1,2) a]
  have "foldl plus (saturate (t + magnitude a)) xs
        = saturate (t + magnitude a + sum_list (map magnitude xs))"
    using Cons.prems(3) by (intro Cons.IH st) simp
  with st(1) show ?case by (simp add: add.assoc)
qed

lemma total_saturate:
  assumes "\<forall>a \<in> set xs. accepted a \<and> in_range a"
  shows "foldl plus (BN_Fin 0) xs = saturate (sum_list (map magnitude xs))"
proof -
  have "saturate 0 = BN_Fin 0" using overflow_bound_pos by (simp add: saturate_def)
  with foldl_plus_saturate [of 0 xs] assms show ?thesis by (simp add: summable_def)
qed


lemma good_saturate:
  assumes "accepted x" and "in_range x"
  shows "x = saturate (magnitude x)" and "0 \<le> magnitude x" and "summable (magnitude x)"
proof -
  note ul = underflow_le_overflow
  from good_cases [OF assms]
  have "x = saturate (magnitude x) \<and> 0 \<le> magnitude x \<and> summable (magnitude x)"
    using ul overflow_bound_pos by (auto simp: saturate_def magnitude_def summable_def)
  then show "x = saturate (magnitude x)" and "0 \<le> magnitude x" and "summable (magnitude x)"
    by simp_all
qed

lemma saturate_good:
  assumes "0 \<le> t" and "summable t"
  shows "accepted (saturate t)" and "in_range (saturate t)"
  using assms
  by (auto simp: saturate_def accepted_def isNaN_def isNegative_def in_range_def bn_clamp_def
      bn_norm_def summable_def)

lemma plus_good:
  assumes "accepted x" "in_range x" "accepted a" "in_range a"
  shows "plus x a = saturate (magnitude x + magnitude a)"
    and "accepted (plus x a)" and "in_range (plus x a)"
proof -
  note x = good_saturate [OF assms(1,2)]
  note st = plus_step [OF x(2,3) assms(3,4)]
  from st(1) x(1) show e: "plus x a = saturate (magnitude x + magnitude a)" by simp
  show "accepted (plus x a)" "in_range (plus x a)"
    unfolding e using saturate_good [OF st(2,3)] by simp_all
qed

lemma zero_good: "accepted (BN_Fin 0)" "in_range (BN_Fin 0)"
  by (simp_all add: accepted_def isNaN_def isNegative_def in_range_def bn_clamp_def bn_norm_def)

lemma plus_zero_right:
  assumes "accepted x" "in_range x"
  shows "plus x (BN_Fin 0) = x"
  using plus_good(1) [OF assms zero_good] good_saturate(1) [OF assms]
  by (simp add: magnitude_def)

lemma new_BigNumber_Nil: "new_BigNumber radix [] = BN_NaN"
  by (simp add: new_BigNumber_def parse_decimal_def parseNumeric_def strip_whitespaceOrPlus_def
      basePrefix_def)

lemma statistics_row_fst:
  "fst (statistics_row radix i (amounts, n) line) = amounts @ row_amount radix i line"
  by (simp add: row_amount_def statistics_row_def Let_def split: option.splits)

lemma statistics_rows_fst:
  "fst (foldl (statistics_row radix i) (amounts, n) rows)
     = amounts @ concat (map (row_amount radix i) rows)"
proof (induction rows arbitrary: amounts n)
  case Nil
  show ?case by simp
next
  case (Cons r rows)
  obtain amounts' n' where s: "statistics_row radix i (amounts, n) r = (amounts', n')"
    by (cases "statistics_row radix i (amounts, n) r")
  then have "amounts' = amounts @ row_amount radix i r"
    using statistics_row_fst [of radix i amounts n r] by simp
  with s Cons.IH [of amounts' n'] show ?case by simp
qed

lemma row_amount_good:
  "a \<in> set (row_amount radix i line) \<Longrightarrow> accepted a \<and> in_range a"
  by (auto simp: row_amount_def statistics_row_def Let_def accepted_def in_range_new_BigNumber
      split: option.splits if_splits)

lemma totalAmount_getCSVStatistics:
  assumes "nonblank_lines csvContent = header # rows"
  shows "totalAmount (getCSVStatistics radix csvContent amountColumn) =
           (if indexOf (cells header) amountColumn = - 1 then BN_Fin 0
            else foldl plus (BN_Fin 0)
                   (concat (map (row_amount radix (indexOf (cells header) amountColumn)) rows)))"
proof (cases rows)
  case Nil
  with assms show ?thesis by (simp add: getCSVStatistics_def zero_statistics_def)
next
  case (Cons r rs)
  let ?i = "indexOf (cells header) amountColumn"
  obtain amounts n where f: "foldl (statistics_row radix ?i) ([], 0) rows = (amounts, n)"
    by (cases "foldl (statistics_row radix ?i) ([], 0) rows")
  then have a: "amounts = concat (map (row_amount radix ?i) rows)"
    using statistics_rows_fst [of radix ?i "[]" 0 rows] by simp
  from assms Cons f show ?thesis
    unfolding a [symmetric]
    by (cases "amounts = []") (auto simp: getCSVStatistics_def zero_statistics_def Let_def)
qed

lemma mset_row_amounts:
  assumes "mset rows1 = mset rows2"
  shows "mset (concat (map f rows1)) = mset (concat (map f rows2))"
proof -
  have "mset (concat (map f rows)) = sum_mset (image_mset (\<lambda>r. mset (f r)) (mset rows))" for rows
    by (induction rows) simp_all
  with assms show ?thesis by simp
qed

lemma total_row_good:
  assumes "accepted (sum_totalAmount st)" and "in_range (sum_totalAmount st)"
  shows "accepted (sum_totalAmount (total_row radix i dp st row))
       \<and> in_range (sum_totalAmount (total_row radix i dp st row))"
proof -
  obtain index line where row: "row = (index, line)" by (cases row)
  have a: "accepted (plus (sum_totalAmount st) (new_BigNumber radix v))
         \<and> in_range (plus (sum_totalAmount st) (new_BigNumber radix v))"
    if "\<not> isNaN (new_BigNumber radix v)" "\<not> isNegative (new_BigNumber radix v)" for v
    using plus_good(2,3) [OF assms _ in_range_new_BigNumber, of radix v] that
    by (simp add: accepted_def)
  show ?thesis
    using assms a unfolding row
    by (auto simp: total_row_def invalid_row_def Let_def split: option.splits)
qed

lemma foldl_total_row_good:
  assumes "accepted (sum_totalAmount st)" and "in_range (sum_totalAmount st)"
  shows "accepted (sum_totalAmount (foldl (total_row radix i dp) st rows))
       \<and> in_range (sum_totalAmount (foldl (total_row radix i dp) st rows))"
  using assms
proof (induction rows arbitrary: st)
  case Nil
  then show ?case by simp
next
  case (Cons r rows)
  from total_row_good [OF Cons.prems, of radix i dp r] Cons.IH show ?case by simp
qed

text \<open>
  The running total of \<open>csvTotalAmount\<close> and the collected amounts of
  \<open>getCSVStatistics\<close> are accepted values within the exponent range, at every row.
\<close>

lemma total_rows_good:
  "accepted (sum_totalAmount (total_rows radix i dp rows))
   \<and> in_range (sum_totalAmount (total_rows radix i dp rows))"
  unfolding total_rows_def
  by (rule foldl_total_row_good) (simp_all add: initial_totals_def zero_good)

section \<open>Evaluating the examples\<close>

lemmas parse_defs = parse_decimal_def not_exponent_marker_def is_digit_def digits_value_def
  digit_value_def parse_exponent_def Let_def

lemmas numeric_defs = parseNumeric_def strip_whitespaceOrPlus_def is_space_def basePrefix_def
  is_word_def

lemma new_BigNumber_examples:
  "new_BigNumber radix ''10.1234567'' = BN_Fin (101234567 / 10000000)"
  "new_BigNumber radix ''-5'' = BN_Fin (- 5)"
  "new_BigNumber radix ''20.5'' = BN_Fin (41 / 2)"
  "new_BigNumber radix ''1.5'' = BN_Fin (3 / 2)"
  "new_BigNumber radix ''2.25'' = BN_Fin (9 / 4)"
  "new_BigNumber radix ''1.123456789'' = BN_Fin (1123456789 / 1000000000)"
  by (simp_all add: new_BigNumber_def parse_defs of_decimal_def pow10_def bn_norm_moderate)

lemma new_BigNumber_zeros:
  "new_BigNumber radix ''0'' = BN_Fin 0"
  "new_BigNumber radix ''0.0'' = BN_Fin 0"
  "new_BigNumber radix ''-0'' = BN_NegZero"
  "new_BigNumber radix ''-0.0'' = BN_NegZero"
  by (simp_all add: new_BigNumber_def parse_defs of_decimal_def)

lemma new_BigNumber_abc: "new_BigNumber radix ''abc'' = BN_NaN"
  by (simp add: new_BigNumber_def parse_defs numeric_defs)

lemma nonblank_lines_examples:
  "nonblank_lines csv_example =
     [''amount,note'', ''10.1234567,a'', ''-5,b'', ''abc,c'', '',d'', ''20.5,e'']"
  "nonblank_lines csv_forward = [''amount'', ''1.5'', ''2.25'']"
  "nonblank_lines csv_backward = [''amount'', ''2.25'', ''1.5'']"
  "nonblank_lines csv_other_columns = [''name,note'', ''1,a'', ''2,b'']"
  by (simp_all add: csv_example_def csv_forward_def csv_backward_def csv_other_columns_def
      nonblank_lines_def trim_def is_space_def)

lemma cells_examples:
  "cells ''amount,note'' = [''amount'', ''note'']"
  "cells ''10.1234567,a'' = [''10.1234567'', ''a'']"
  "cells ''-5,b'' = [''-5'', ''b'']"
  "cells ''abc,c'' = [''abc'', ''c'']"
  "cells '',d'' = [[], ''d'']"
  "cells ''20.5,e'' = [''20.5'', ''e'']"
  "cells ''amount'' = [''amount'']"
  "cells ''1.5'' = [''1.5'']"
  "cells ''2.25'' = [''2.25'']"
  "cells ''name,note'' = [''name'', ''note'']"
  "cells ''1.123456789,x'' = [''1.123456789'', ''x'']"
  "cells ''0.0,x'' = [''0.0'', ''x'']"
  "cells ''-0,x'' = [''-0'', ''x'']"
  by (simp_all add: cells_def trim_def is_space_def)

lemma trim_examples:
  "trim ''10.1234567,a'' \<noteq> []" "trim ''-5,b'' \<noteq> []" "trim ''abc,c'' \<noteq> []"
  "trim '',d'' \<noteq> []" "trim ''20.5,e'' \<noteq> []" "trim ''1.5'' \<noteq> []" "trim ''2.25'' \<noteq> []"
  "trim ''1.123456789,x'' \<noteq> []" "trim ''0.0,x'' \<noteq> []" "trim ''-0,x'' \<noteq> []"
  by (simp_all add: trim_def is_space_def)

lemma decimalPlaces_examples:
  "decimalPlaces_of (BN_Fin (101234567 / 10000000)) = Some 7"
  "decimalPlaces_of (BN_Fin (41 / 2)) = Some 1"
  "decimalPlaces_of (BN_Fin (1123456789 / 1000000000)) = Some 9"
  by code_simp+

lemma statistics_rows_example:
  "foldl (statistics_row radix 0) ([], 0)
     [''10.1234567,a'', ''-5,b'', ''abc,c'', '',d'', ''20.5,e'']
   = ([BN_Fin (101234567 / 10000000), BN_Fin (41 / 2)], 3)"
  by (simp add: statistics_row_def cells_examples trim_examples at_index_def
      new_BigNumber_examples new_BigNumber_abc isNaN_def isNegative_def)

lemma total_example:
  "foldl plus (BN_Fin 0) [BN_Fin (101234567 / 10000000), BN_Fin (41 / 2)]
     = BN_Fin (306234567 / 10000000)"
  by (simp add: plus_def bn_norm_moderate)

lemma average_example:
  "dividedBy (BN_Fin (306234567 / 10000000)) 2 = BN_Fin (1531172835 / 100000000)"
proof -
  have "\<lfloor>(3062345670000000000001::rat) / 2\<rfloor> = 1531172835000000000000"
    by (rule floor_unique) simp_all
  then show ?thesis
    by (simp add: dividedBy_def round_half_up_def DECIMAL_PLACES_def)
qed

lemma extremes_example:
  "minimum [BN_Fin (101234567 / 10000000), BN_Fin (41 / 2)] = BN_Fin (101234567 / 10000000)"
  "maximum [BN_Fin (101234567 / 10000000), BN_Fin (41 / 2)] = BN_Fin (41 / 2)"
  by (simp_all add: minimum_def maximum_def lt_def bn_key_def compares_equal_def isNegative_def)

lemma total_rows_example:
  "total_rows radix 0 7 [''10.1234567,a'', ''-5,b'', ''abc,c'', '',d'', ''20.5,e''] =
     \<lparr> sum_totalAmount = BN_Fin (306234567 / 10000000), sum_validRows = 2,
       sum_invalidRows = 3,
       sum_errors = [''Row 3: Negative amount: -5'', ''Row 4: Invalid amount format: abc'',
                     ''Row 5: Empty amount value''],
       sum_log = [] \<rparr>"
  by (simp add: total_rows_def initial_totals_def total_row_def invalid_row_def cells_examples
      trim_examples at_index_def new_BigNumber_examples new_BigNumber_abc isNaN_def
      isNegative_def decimalPlaces_examples plus_def bn_norm_moderate show_nat.simps)

section \<open>The worked CSV example\<close>

text \<open>
  C3. On the example text, with the column \<open>amount\<close>, \<open>getCSVStatistics\<close> counts two
  valid and three invalid rows among five and returns the total 30.6234567, the
  average 15.31172835, the minimum 10.1234567 and the maximum 20.5, each as an exact
  fraction. \<open>csvTotalAmount\<close>, which takes the limit of seven decimal places, resolves
  to the same total, with the same two counts and no precision warning.
\<close>

theorem csv_example_statistics:
  "getCSVStatistics radix csv_example ''amount'' =
     \<lparr> rowCount = 5,
       totalAmount = BN_Fin (306234567 / 10000000),
       averageAmount = BN_Fin (1531172835 / 100000000),
       minAmount = BN_Fin (101234567 / 10000000),
       maxAmount = BN_Fin (41 / 2),
       validRows = 2, invalidRows = 3 \<rparr>
   \<and> csvTotalAmount radix (Some csv_example) ''amount'' 7 =
       ([Log Info ''CSV total amount calculated successfully'' ''CSVProcessing'',
         Log Warn ''CSV processing completed with errors'' ''CSVProcessing''],
        Some (BN_Fin (306234567 / 10000000)))
   \<and> sum_validRows (total_rows radix 0 7 (tl (nonblank_lines csv_example))) = 2
   \<and> sum_invalidRows (total_rows radix 0 7 (tl (nonblank_lines csv_example))) = 3"
proof -
  have e: "csv_example \<noteq> []" by (simp add: csv_example_def)
  have a: "dividedBy (BN_Fin (306234567 / 10000000)) (Suc (Suc 0))
             = BN_Fin (1531172835 / 100000000)"
    using average_example by (simp add: numeral_2_eq_2)
  show ?thesis
    by (simp add: getCSVStatistics_def csvTotalAmount_def e nonblank_lines_examples
        cells_examples statistics_rows_example total_example a extremes_example
        total_rows_example csv_context_def Let_def del: foldl_Cons foldl_Nil)
qed

theorem csv_example_statistics_witness:
  "getCSVStatistics no_radix csv_example ''amount'' =
     \<lparr> rowCount = 5,
       totalAmount = BN_Fin (306234567 / 10000000),
       averageAmount = BN_Fin (1531172835 / 100000000),
       minAmount = BN_Fin (101234567 / 10000000),
       maxAmount = BN_Fin (41 / 2),
       validRows = 2, invalidRows = 3 \<rparr>
   \<and> csvTotalAmount no_radix (Some csv_example) ''amount'' 7 =
       ([Log Info ''CSV total amount calculated successfully'' ''CSVProcessing'',
         Log Warn ''CSV processing completed with errors'' ''CSVProcessing''],
        Some (BN_Fin (306234567 / 10000000)))
   \<and> sum_validRows (total_rows no_radix 0 7 (tl (nonblank_lines csv_example))) = 2
   \<and> sum_invalidRows (total_rows no_radix 0 7 (tl (nonblank_lines csv_example))) = 3"
  by (rule csv_example_statistics)

section \<open>A column that is not in the header\<close>

text \<open>
  C5. When no cell of the header, split at commas and trimmed, equals the requested
  column name, \<open>getCSVStatistics\<close> returns normally: total, average, minimum and
  maximum are zero, no row is valid, and every data row (every non-blank line after the
  header) is counted invalid.
\<close>

theorem absent_column_statistics:
  assumes "nonblank_lines csvContent = header # rows"
    and "amountColumn \<notin> set (cells header)"
  shows "getCSVStatistics radix csvContent amountColumn =
           \<lparr> rowCount = length rows, totalAmount = BN_Fin 0, averageAmount = BN_Fin 0,
             minAmount = BN_Fin 0, maxAmount = BN_Fin 0, validRows = 0,
             invalidRows = length rows \<rparr>"
proof -
  have i: "indexOf (cells header) amountColumn = - 1"
    using assms(2) by (simp only: indexOf_absent not_False_eq_True)
  show ?thesis
  proof (cases rows)
    case Nil
    with assms(1) show ?thesis by (simp add: getCSVStatistics_def zero_statistics_def)
  next
    case (Cons r rs)
    with assms(1) i show ?thesis by (simp add: getCSVStatistics_def zero_statistics_def)
  qed
qed

theorem absent_column_statistics_witness:
  "nonblank_lines csv_other_columns = [''name,note'', ''1,a'', ''2,b'']
   \<and> ''amount'' \<notin> set (cells ''name,note'')
   \<and> getCSVStatistics no_radix csv_other_columns ''amount'' =
       \<lparr> rowCount = 2, totalAmount = BN_Fin 0, averageAmount = BN_Fin 0,
         minAmount = BN_Fin 0, maxAmount = BN_Fin 0, validRows = 0, invalidRows = 2 \<rparr>"
proof -
  have l: "nonblank_lines csv_other_columns = [''name,note'', ''1,a'', ''2,b'']"
    by (rule nonblank_lines_examples)
  have c: "''amount'' \<notin> set (cells ''name,note'')"
    by (simp add: cells_examples)
  show ?thesis
    using l c absent_column_statistics [OF l c, of no_radix] by simp
qed

text \<open>
  \<open>csvTotalAmount\<close> does not fail on such a text either: it logs a warning and resolves
  to \<open>null\<close>.
\<close>

lemma csvTotalAmount_absent_column:
  assumes "nonblank_lines csvRows = header # r # rows"
    and "columnName \<notin> set (cells header)"
  shows "csvTotalAmount radix (Some csvRows) columnName decimalPlaces =
           ([Log Warn ''Amount column not found in CSV'' ''CSVProcessing''], None)"
proof -
  have i: "indexOf (cells header) columnName = - 1"
    using assms(2) by (simp only: indexOf_absent not_False_eq_True)
  have "csvRows \<noteq> []" using assms(1) by (auto simp: nonblank_lines_def trim_def)
  with assms(1) i show ?thesis by (simp add: csvTotalAmount_def csv_context_def)
qed

section \<open>More decimal places than the limit\<close>

text \<open>
  C6. A row whose value is a non-negative decimal with more decimal places than
  \<open>decimalPlaces\<close> is processed by \<open>csvTotalAmount\<close> like any accepted row, except for
  one warning in the log. The new total is the exact sum of the running total and the
  value, or the infinity when that sum reaches the overflow bound; the count of valid
  rows grows by one, and the count of invalid rows and the error list stay as they
  are. The running total is an accepted value within the exponent range at every row
  (\<open>total_rows_good\<close>). \<open>getCSVStatistics\<close>, which has no limit, collects the value.
\<close>

theorem excess_precision_row:
  assumes "trim line \<noteq> []"
    and "at_index (cells line) amountIndex = Some amountValue"
    and "new_BigNumber radix amountValue = BN_Fin q" and "0 \<le> q"
    and "decimalPlaces_of (BN_Fin q) = Some dp" and "decimalPlaces < int dp"
    and "accepted (sum_totalAmount st)" and "in_range (sum_totalAmount st)"
  shows "total_row radix amountIndex decimalPlaces st (index, line) =
           st\<lparr> sum_totalAmount := saturate (magnitude (sum_totalAmount st) + q),
               sum_validRows := sum_validRows st + 1,
               sum_log := sum_log st @
                 [Log Warn ''Amount exceeds decimal places limit'' ''CSVProcessing''] \<rparr>
         \<and> statistics_row radix amountIndex (amounts, invalid) line
             = (amounts @ [BN_Fin q], invalid)"
proof -
  have v: "amountValue \<noteq> []" using assms(3) new_BigNumber_Nil [of radix] by auto
  have a: "accepted (BN_Fin q)"
    using assms(4) by (simp add: accepted_def isNaN_def isNegative_def)
  have r: "in_range (BN_Fin q)"
    using in_range_new_BigNumber [of radix amountValue] assms(3) by simp
  have p: "plus (sum_totalAmount st) (BN_Fin q) = saturate (magnitude (sum_totalAmount st) + q)"
    using plus_good(1) [OF assms(7,8) a r] by (simp add: magnitude_def)
  from assms(1-6) v p show ?thesis
    by (simp add: total_row_def statistics_row_def isNaN_def isNegative_def csv_context_def)
qed

theorem excess_precision_row_witness:
  "total_row no_radix 0 7
     \<lparr> sum_totalAmount = BN_Fin (3 / 2), sum_validRows = 1, sum_invalidRows = 0,
       sum_errors = [], sum_log = [] \<rparr>
     (1, ''1.123456789,x'') =
     \<lparr> sum_totalAmount = BN_Fin (2623456789 / 1000000000), sum_validRows = 2,
       sum_invalidRows = 0, sum_errors = [],
       sum_log = [Log Warn ''Amount exceeds decimal places limit'' ''CSVProcessing''] \<rparr>
   \<and> statistics_row no_radix 0 ([BN_Fin (3 / 2)], 0) ''1.123456789,x''
       = ([BN_Fin (3 / 2), BN_Fin (1123456789 / 1000000000)], 0)"
proof -
  have v: "at_index (cells ''1.123456789,x'') 0 = Some ''1.123456789''"
    by (simp add: cells_examples at_index_def)
  have q: "(0::rat) \<le> 1123456789 / 1000000000" by simp
  have d: "(7::int) < int 9" by simp
  have a: "accepted (BN_Fin (3 / 2))"
    by (simp add: accepted_def isNaN_def isNegative_def)
  have r: "in_range (BN_Fin (3 / 2))"
    by (simp add: in_range_def bn_clamp_def bn_norm_moderate)
  have "\<not> overflow_bound \<le> 2623456789 / 1000000000"
    using overflow_bound_ge by simp
  then have s: "saturate (3 / 2 + 1123456789 / 1000000000) = BN_Fin (2623456789 / 1000000000)"
    by (simp add: saturate_def)
  show ?thesis
    using excess_precision_row [where st = "\<lparr> sum_totalAmount = BN_Fin (3 / 2),
          sum_validRows = 1, sum_invalidRows = 0, sum_errors = [], sum_log = [] \<rparr>"
        and index = 1 and amounts = "[BN_Fin (3 / 2)]" and invalid = 0,
        OF trim_examples(8) v new_BigNumber_examples(6) q decimalPlaces_examples(3) d]
      a r s
    by (simp add: magnitude_def)
qed

section \<open>Order of the rows\<close>

text \<open>
  C7. Two texts with the same header whose data rows are permutations of each other
  have the same total in \<open>getCSVStatistics\<close>. The total is an exact rational (or the
  infinity both orders reach), so the equality is exact. The rows need not even be
  valid: invalid rows are skipped in both orders.
\<close>

theorem total_order_independent:
  assumes "nonblank_lines content1 = header # rows1"
    and "nonblank_lines content2 = header # rows2"
    and "mset rows1 = mset rows2"
  shows "totalAmount (getCSVStatistics radix content1 amountColumn)
       = totalAmount (getCSVStatistics radix content2 amountColumn)"
proof -
  let ?i = "indexOf (cells header) amountColumn"
  let ?a1 = "concat (map (row_amount radix ?i) rows1)"
  let ?a2 = "concat (map (row_amount radix ?i) rows2)"
  have m: "mset ?a1 = mset ?a2" by (rule mset_row_amounts [OF assms(3)])
  have g: "\<forall>a \<in> set (concat (map (row_amount radix ?i) rows)). accepted a \<and> in_range a" for rows
    using row_amount_good by auto
  have "sum_list (map magnitude ?a1) = sum_mset (image_mset magnitude (mset ?a1))"
    by (simp only: sum_mset_sum_list [symmetric] mset_map)
  also have "\<dots> = sum_mset (image_mset magnitude (mset ?a2))" by (simp only: m)
  also have "\<dots> = sum_list (map magnitude ?a2)"
    by (simp only: sum_mset_sum_list [symmetric] mset_map)
  finally have "foldl plus (BN_Fin 0) ?a1 = foldl plus (BN_Fin 0) ?a2"
    by (simp only: total_saturate [OF g])
  then show ?thesis
    by (simp only: totalAmount_getCSVStatistics [OF assms(1)]
        totalAmount_getCSVStatistics [OF assms(2)])
qed

theorem total_order_independent_witness:
  "nonblank_lines csv_forward = [''amount'', ''1.5'', ''2.25'']
   \<and> nonblank_lines csv_backward = [''amount'', ''2.25'', ''1.5'']
   \<and> mset [''1.5'', ''2.25''] = mset [''2.25'', ''1.5'']
   \<and> totalAmount (getCSVStatistics no_radix csv_forward ''amount'')
       = totalAmount (getCSVStatistics no_radix csv_backward ''amount'')
   \<and> totalAmount (getCSVStatistics no_radix csv_backward ''amount'') = BN_Fin (15 / 4)"
proof -
  have f: "nonblank_lines csv_forward = [''amount'', ''1.5'', ''2.25'']"
    and b: "nonblank_lines csv_backward = [''amount'', ''2.25'', ''1.5'']"
    by (rule nonblank_lines_examples)+
  have m: "mset [''1.5'', ''2.25''] = mset [''2.25'', ''1.5'']"
    by (simp add: add.commute)
  have t: "totalAmount (getCSVStatistics no_radix csv_backward ''amount'') = BN_Fin (15 / 4)"
    by (simp add: totalAmount_getCSVStatistics [OF b] cells_examples row_amount_def
        statistics_row_def trim_examples at_index_def new_BigNumber_examples isNaN_def
        isNegative_def plus_def bn_norm_moderate)
  from total_order_independent [OF f b m, of no_radix "''amount''"] f b m t
  show ?thesis by simp
qed

section \<open>Rows whose value is zero\<close>

text \<open>
  C10, as the code has it. A row whose value the constructor reads as the positive
  zero (\<open>0\<close>, \<open>0.0\<close>: no minus sign) is accepted by both loops: the count of valid
  rows grows by one, nothing is counted invalid or recorded as an error, and the total
  stays what it was. The running total and the collected amounts are accepted values
  within the exponent range, as \<open>total_rows_good\<close> and \<open>row_amount_good\<close> show for the
  two loops.
\<close>

theorem zero_amount_row:
  assumes "trim line \<noteq> []"
    and "at_index (cells line) amountIndex = Some amountValue"
    and "new_BigNumber radix amountValue = BN_Fin 0"
    and "accepted (sum_totalAmount st)" and "in_range (sum_totalAmount st)"
    and "\<forall>a \<in> set amounts. accepted a \<and> in_range a"
  shows "sum_validRows (total_row radix amountIndex decimalPlaces st (index, line))
           = sum_validRows st + 1
       \<and> sum_invalidRows (total_row radix amountIndex decimalPlaces st (index, line))
           = sum_invalidRows st
       \<and> sum_errors (total_row radix amountIndex decimalPlaces st (index, line))
           = sum_errors st
       \<and> sum_totalAmount (total_row radix amountIndex decimalPlaces st (index, line))
           = sum_totalAmount st
       \<and> statistics_row radix amountIndex (amounts, invalid) line
           = (amounts @ [BN_Fin 0], invalid)
       \<and> foldl plus (BN_Fin 0) (amounts @ [BN_Fin 0]) = foldl plus (BN_Fin 0) amounts"
proof -
  have v: "amountValue \<noteq> []" using assms(3) new_BigNumber_Nil [of radix] by auto
  have p: "plus (sum_totalAmount st) (BN_Fin 0) = sum_totalAmount st"
    by (rule plus_zero_right [OF assms(4,5)])
  have g: "\<forall>a \<in> set (amounts @ [BN_Fin 0]). accepted a \<and> in_range a"
    using assms(6) zero_good by simp
  have "sum_list (map magnitude (amounts @ [BN_Fin 0])) = sum_list (map magnitude amounts)"
    by (simp add: magnitude_def)
  then have t: "foldl plus (BN_Fin 0) (amounts @ [BN_Fin 0]) = foldl plus (BN_Fin 0) amounts"
    by (simp only: total_saturate [OF g] total_saturate [OF assms(6)])
  from assms(1-3) v p t show ?thesis
    by (simp add: total_row_def statistics_row_def isNaN_def isNegative_def
        decimalPlaces_of_def split: if_splits)
qed

theorem zero_amount_row_witness:
  "sum_validRows (total_row no_radix 0 7 initial_totals (0, ''0.0,x'')) = 1
   \<and> sum_invalidRows (total_row no_radix 0 7 initial_totals (0, ''0.0,x'')) = 0
   \<and> sum_errors (total_row no_radix 0 7 initial_totals (0, ''0.0,x'')) = []
   \<and> sum_totalAmount (total_row no_radix 0 7 initial_totals (0, ''0.0,x'')) = BN_Fin 0
   \<and> statistics_row no_radix 0 ([], 0) ''0.0,x'' = ([BN_Fin 0], 0)
   \<and> foldl plus (BN_Fin 0) ([] @ [BN_Fin 0]) = foldl plus (BN_Fin 0) []"
proof -
  have v: "at_index (cells ''0.0,x'') 0 = Some ''0.0''"
    by (simp add: cells_examples at_index_def)
  have a: "accepted (sum_totalAmount initial_totals)" "in_range (sum_totalAmount initial_totals)"
    by (simp_all add: initial_totals_def zero_good)
  have e: "\<forall>a \<in> set []. accepted a \<and> in_range a" by simp
  show ?thesis
    using zero_amount_row [where decimalPlaces = 7 and index = 0 and invalid = 0,
        OF trim_examples(9) v new_BigNumber_zeros(2) a e]
    by (simp add: initial_totals_def)
qed

text \<open>
  C10 as the specification words it fails for a value with a minus sign that reads as
  zero. The constructor makes \<open>-0\<close> the negative zero, a zero for which \<open>isNegative\<close>
  holds, and both loops count the row invalid.
\<close>

theorem negative_zero_row_counterexample:
  "isZero (new_BigNumber no_radix ''-0'')
   \<and> statistics_row no_radix 0 ([], 0) ''-0,x'' = ([], 1)
   \<and> sum_validRows (total_row no_radix 0 7 initial_totals (0, ''-0,x'')) = 0
   \<and> sum_invalidRows (total_row no_radix 0 7 initial_totals (0, ''-0,x'')) = 1
   \<and> sum_errors (total_row no_radix 0 7 initial_totals (0, ''-0,x''))
       = [''Row 2: Negative amount: -0'']"
  by (simp add: isZero_def new_BigNumber_zeros statistics_row_def total_row_def
      invalid_row_def initial_totals_def cells_examples trim_examples at_index_def isNaN_def
      isNegative_def show_nat.simps)

text \<open>
  The rows both loops count invalid: no cell at the column, an empty cell, a value
  that is not a number, and a value whose sign is negative.
\<close>

lemma rejected_rows:
  assumes "trim line \<noteq> []"
    and "at_index (cells line) amountIndex = None
       \<or> at_index (cells line) amountIndex = Some []
       \<or> (\<exists>v. at_index (cells line) amountIndex = Some v
              \<and> (isNaN (new_BigNumber radix v) \<or> isNegative (new_BigNumber radix v)))"
  shows "statistics_row radix amountIndex (amounts, invalid) line = (amounts, invalid + 1)"
    and "sum_invalidRows (total_row radix amountIndex decimalPlaces st (index, line))
           = sum_invalidRows st + 1"
    and "sum_validRows (total_row radix amountIndex decimalPlaces st (index, line))
           = sum_validRows st"
    and "sum_totalAmount (total_row radix amountIndex decimalPlaces st (index, line))
           = sum_totalAmount st"
  using assms
  by (auto simp: statistics_row_def total_row_def invalid_row_def Let_def)

end
